theory Spec2Isabelle
  imports Main "HOL-Library.Sublist"
begin

section \<open>Shared data model\<close>

text \<open>
  Modelled from the spec: the declarations of \<^verbatim>\<open>SupportMessage\<close>,
  \<^verbatim>\<open>SupportConversation\<close> and \<^verbatim>\<open>TelegramUpdate\<close>, which the sources import from a
  types module that is not among them. The sender of a message is the visitor or the
  support side, and a conversation is open, resolved or closed, as the data model of the
  spec says. The records carry the fields that the store, the input component and the
  webhook read or write (the literal in \<^verbatim>\<open>sendMessage\<close> lists those of a message).
  The field \<^verbatim>\<open>id\<close> of both rows is renamed, since \<open>id\<close> is the identity function
  of HOL.
\<close>

datatype sender = User | Support

datatype conversation_status = Open | Resolved | Closed

record support_message =
  id_msg :: string
  conversation_id :: string
  sender_type :: sender
  sender_name :: "string option"
  sender_telegram_id :: "int option"
  content :: "string option"
  image_url :: "string option"
  telegram_message_id :: "int option"
  is_read :: bool
  read_at :: "string option"
  created_at :: string

record support_conversation =
  id_conv :: string
  status :: conversation_status

text \<open>
  JavaScript truthiness of a value of type \<^verbatim>\<open>string | null | undefined\<close>: the empty
  string is falsy, like \<^verbatim>\<open>null\<close>. \<open>or_null\<close> is the idiom \<^verbatim>\<open>x || null\<close>.
\<close>

fun truthy :: "string option \<Rightarrow> bool" where
  "truthy None = False"
| "truthy (Some s) = (s \<noteq> [])"

definition or_null :: "string option \<Rightarrow> string option" where
  "or_null x = (if truthy x then x else None)"

section \<open>The client store\<close>

text \<open>
  One record holds what the browser side of the chat owns: the fields of the Zustand
  store, the module-level slot \<^verbatim>\<open>activeSubscription\<close>, the realtime channels that are
  open on the Supabase client, the two kinds of \<^verbatim>\<open>localStorage\<close> entries that the
  store touches, and a log of the HTTP requests issued so far.

  \<^item> A channel is named by a handle (a counter value taken when the channel is made); the
    closure \<^verbatim>\<open>unsubscribe\<close> of the source is determined by the handle of its channel.
  \<^item> \<^verbatim>\<open>localStorage\<close> maps a key \<^verbatim>\<open>support_messages_<id>\<close> to the JSON text of a
    message list; \<^verbatim>\<open>JSON.parse\<close> after \<^verbatim>\<open>JSON.stringify\<close> is taken to give the list
    back, so the entry is kept as the list itself. The key \<^verbatim>\<open>support_anonymous_id\<close>
    differs from every cache key and is a field of its own.
\<close>

datatype http_request =
    GET_conversations string
  | POST_conversations string string
  | GET_conversation string string
  | PATCH_conversation string conversation_status string
  | POST_messages string string "string option" string
  | POST_upload

record client =
  isOpen :: bool
  unreadCount :: nat
  conversations :: "support_conversation list"
  currentConversation :: "support_conversation option"
  messages :: "support_message list"
  isLoading :: bool
  isSending :: bool
  error :: "string option"
  activeSubscription :: "(string \<times> nat) option"
  channels :: "(nat \<times> string) list"
  next_channel :: nat
  localStorage :: "(string \<times> support_message list) list"
  support_anonymous_id :: "string option"
  network :: "http_request list"

definition initial_client :: client where
  "initial_client = \<lparr>isOpen = False, unreadCount = 0, conversations = [],
     currentConversation = None, messages = [], isLoading = False, isSending = False,
     error = None, activeSubscription = None, channels = [], next_channel = 0,
     localStorage = [], support_anonymous_id = None, network = []\<rparr>"

subsection \<open>Device-local cache\<close>

definition cache_key :: "string \<Rightarrow> string" where
  "cache_key conversationId = ''support_messages_'' @ conversationId"

fun setItem :: "string \<Rightarrow> 'v \<Rightarrow> (string \<times> 'v) list \<Rightarrow> (string \<times> 'v) list" where
  "setItem k v [] = [(k, v)]"
| "setItem k v ((k', v') # kvs) = (if k' = k then (k, v) # kvs else (k', v') # setItem k v kvs)"

definition getItem :: "string \<Rightarrow> (string \<times> 'v) list \<Rightarrow> 'v option" where
  "getItem k kvs = map_of kvs k"

subsection \<open>UI actions\<close>

definition openWidget :: "client \<Rightarrow> client" where
  "openWidget s = s\<lparr>isOpen := True, unreadCount := 0, error := None\<rparr>"

definition closeWidget :: "client \<Rightarrow> client" where
  "closeWidget s = s\<lparr>isOpen := False\<rparr>"

definition resetUnreadCount :: "client \<Rightarrow> client" where
  "resetUnreadCount s = s\<lparr>unreadCount := 0\<rparr>"

definition incrementUnreadCount :: "client \<Rightarrow> client" where
  "incrementUnreadCount s = s\<lparr>unreadCount := unreadCount s + 1\<rparr>"

definition setError :: "string option \<Rightarrow> client \<Rightarrow> client" where
  "setError e s = s\<lparr>error := e\<rparr>"

subsection \<open>Realtime subscription\<close>

text \<open>
  The closure \<^verbatim>\<open>unsubscribe\<close> made for the channel \<open>ch\<close>: it removes that channel
  from the Supabase client and clears the slot, whatever the slot holds.
\<close>

definition unsubscribe :: "nat \<Rightarrow> client \<Rightarrow> client" where
  "unsubscribe ch s =
     s\<lparr>channels := filter (\<lambda>(h, c). h \<noteq> ch) (channels s), activeSubscription := None\<rparr>"

text \<open>
  The callback registered for \<^verbatim>\<open>INSERT\<close> events on the channel of
  \<open>conversationId\<close>. The placeholder namespace is the prefix \<^verbatim>\<open>temp_\<close>.
\<close>

definition realtime_handler :: "string \<Rightarrow> support_message \<Rightarrow> client \<Rightarrow> client" where
  "realtime_handler conversationId newMessage state =
     (let messageExists = list_ex (\<lambda>m. id_msg m = id_msg newMessage) (messages state) in
      if \<not> messageExists then
        (let messagesWithoutTemp = filter (\<lambda>m. \<not> prefix ''temp_'' (id_msg m)) (messages state);
             updatedMessages = messagesWithoutTemp @ [newMessage];
             s1 = state\<lparr>messages := updatedMessages,
                        localStorage := setItem (cache_key conversationId) updatedMessages
                                          (localStorage state)\<rparr>
         in if sender_type newMessage = Support \<and> \<not> isOpen state
            then s1\<lparr>unreadCount := unreadCount state + 1\<rparr>
            else s1)
      else state)"

definition subscribeToMessages :: "string \<Rightarrow> client \<Rightarrow> client" where
  "subscribeToMessages conversationId s =
     (case activeSubscription s of
        Some (c, ch) \<Rightarrow>
          if c = conversationId then s
          else (let s1 = unsubscribe ch s; h = next_channel s1 in
                s1\<lparr>channels := channels s1 @ [(h, conversationId)],
                   next_channel := h + 1,
                   activeSubscription := Some (conversationId, h)\<rparr>)
      | None \<Rightarrow>
          (let h = next_channel s in
           s\<lparr>channels := channels s @ [(h, conversationId)],
             next_channel := h + 1,
             activeSubscription := Some (conversationId, h)\<rparr>))"

text \<open>
  An \<^verbatim>\<open>INSERT\<close> on the table reaches the callback of every open channel whose filter
  names the conversation of the row.
\<close>

definition realtime_insert :: "support_message \<Rightarrow> client \<Rightarrow> client" where
  "realtime_insert newMessage s =
     fold (\<lambda>(h, c) st. if c = conversation_id newMessage then realtime_handler c newMessage st
                        else st)
          (channels s) s"

subsection \<open>Conversation actions\<close>

text \<open>
  A \<^verbatim>\<open>fetch\<close> either rejects (or its body fails to parse), answers with a status that
  is not ok, or answers ok with a body. Each asynchronous action is split at its
  \<^verbatim>\<open>await\<close>: the part that issues the request, and the part that runs on the answer
  against the state of that later moment.
\<close>

datatype 'a fetched = Rejected "string option" | Not_ok "string option" | Ok 'a

definition loadConversations_request :: "string \<Rightarrow> client \<Rightarrow> client" where
  "loadConversations_request anonymousId s =
     s\<lparr>isLoading := True, error := None,
       network := network s @ [GET_conversations anonymousId]\<rparr>"

definition loadConversations_response ::
  "support_conversation list fetched \<Rightarrow> client \<Rightarrow> client" where
  "loadConversations_response r s =
     (case r of
        Ok cs \<Rightarrow> s\<lparr>conversations := cs, isLoading := False\<rparr>
      | _ \<Rightarrow> s\<lparr>error := Some ''Failed to load conversations'', isLoading := False\<rparr>)"

definition createConversation_request :: "string \<Rightarrow> string \<Rightarrow> client \<Rightarrow> client" where
  "createConversation_request anonymousId initialMessage s =
     s\<lparr>isLoading := True, error := None,
       network := network s @ [POST_conversations anonymousId initialMessage]\<rparr>"

definition createConversation_response ::
  "(support_conversation \<times> support_message list option) fetched \<Rightarrow> client \<Rightarrow> client" where
  "createConversation_response r s =
     (case r of
        Ok (conversation, msgs) \<Rightarrow>
          subscribeToMessages (id_conv conversation)
            (s\<lparr>currentConversation := Some conversation,
               messages := (case msgs of Some ms \<Rightarrow> ms | None \<Rightarrow> []),
               isLoading := False\<rparr>)
      | Not_ok e \<Rightarrow>
          s\<lparr>error := Some (case or_null e of Some m \<Rightarrow> m
                           | None \<Rightarrow> ''Failed to create conversation''),
            isLoading := False\<rparr>
      | Rejected e \<Rightarrow>
          s\<lparr>error := Some (case e of Some m \<Rightarrow> m | None \<Rightarrow> ''Failed to create conversation''),
            isLoading := False\<rparr>)"

definition loadConversationMessages_request :: "string \<Rightarrow> string \<Rightarrow> client \<Rightarrow> client" where
  "loadConversationMessages_request conversationId anonymousId s =
     s\<lparr>network := network s @ [GET_conversation conversationId anonymousId]\<rparr>"

definition loadConversationMessages_response ::
  "string \<Rightarrow> support_message list option fetched \<Rightarrow> client \<Rightarrow> client" where
  "loadConversationMessages_response conversationId r s =
     (case r of
        Ok data_messages \<Rightarrow>
          (let msgs = (case data_messages of Some ms \<Rightarrow> ms | None \<Rightarrow> []);
               s1 = s\<lparr>messages := msgs\<rparr>
           in if length msgs > 0
              then s1\<lparr>localStorage := setItem (cache_key conversationId) msgs (localStorage s1)\<rparr>
              else s1)
      | _ \<Rightarrow> s\<lparr>error := Some ''Failed to load messages''\<rparr>)"

definition loadConversationMessages ::
  "string \<Rightarrow> string \<Rightarrow> support_message list option fetched \<Rightarrow> client \<Rightarrow> client" where
  "loadConversationMessages conversationId anonymousId r s =
     loadConversationMessages_response conversationId r
       (loadConversationMessages_request conversationId anonymousId s)"

definition setCurrentConversation :: "support_conversation option \<Rightarrow> client \<Rightarrow> client" where
  "setCurrentConversation conversation s =
     (let s1 = (case activeSubscription s of
                  Some (c, ch) \<Rightarrow> (unsubscribe ch s)\<lparr>activeSubscription := None\<rparr>
                | None \<Rightarrow> s)
      in case conversation of
           Some conv \<Rightarrow>
             (let initialMessages =
                    (case getItem (cache_key (id_conv conv)) (localStorage s1) of
                       Some ms \<Rightarrow> ms | None \<Rightarrow> []);
                  s2 = s1\<lparr>currentConversation := Some conv, messages := initialMessages\<rparr>
              in case support_anonymous_id s2 of
                   Some anonymousId \<Rightarrow>
                     if anonymousId \<noteq> []
                     then subscribeToMessages (id_conv conv)
                            (loadConversationMessages_request (id_conv conv) anonymousId s2)
                     else s2
                 | None \<Rightarrow> s2)
         | None \<Rightarrow> s1\<lparr>currentConversation := None, messages := []\<rparr>)"

definition updateConversationStatus_request :: "conversation_status \<Rightarrow> client \<Rightarrow> client" where
  "updateConversationStatus_request st s =
     (case currentConversation s of
        None \<Rightarrow> s
      | Some conv \<Rightarrow>
          (case support_anonymous_id s of
             None \<Rightarrow> s
           | Some anonymousId \<Rightarrow>
               if anonymousId = [] then s
               else s\<lparr>network := network s @ [PATCH_conversation (id_conv conv) st anonymousId]\<rparr>))"

definition updateConversationStatus_response ::
  "support_conversation fetched \<Rightarrow> client \<Rightarrow> client" where
  "updateConversationStatus_response r s =
     (case r of
        Ok conv \<Rightarrow> s\<lparr>currentConversation := Some conv\<rparr>
      | _ \<Rightarrow> s\<lparr>error := Some ''Failed to update conversation status''\<rparr>)"

subsection \<open>Message actions\<close>

text \<open>
  \<^verbatim>\<open>sendMessage\<close> up to its \<^verbatim>\<open>fetch\<close>. The values of \<^verbatim>\<open>Date.now()\<close>,
  \<^verbatim>\<open>Math.random()\<close> and \<^verbatim>\<open>new Date().toISOString()\<close> are arguments, already
  rendered as text.
\<close>

definition temp_id :: "string \<Rightarrow> string \<Rightarrow> string" where
  "temp_id now rnd = ''temp_'' @ now @ ''_'' @ rnd"

definition sendMessage ::
  "string \<Rightarrow> string option \<Rightarrow> string \<Rightarrow> string \<Rightarrow> string \<Rightarrow> client \<Rightarrow> client" where
  "sendMessage text imageUrl now rnd createdAt s =
     (case currentConversation s of
        None \<Rightarrow> s
      | Some conv \<Rightarrow>
          (case support_anonymous_id s of
             None \<Rightarrow> s
           | Some anonymousId \<Rightarrow>
               if anonymousId = [] then s
               else
                 (let tempId = temp_id now rnd;
                      tempMessage = \<lparr>id_msg = tempId, conversation_id = id_conv conv,
                        sender_type = User, sender_name = None, sender_telegram_id = None,
                        content = or_null (Some text), image_url = or_null imageUrl,
                        telegram_message_id = None, is_read = False, read_at = None,
                        created_at = createdAt\<rparr>
                  in s\<lparr>messages := messages s @ [tempMessage], isSending := True, error := None,
                       network := network s @
                         [POST_messages (id_conv conv) text imageUrl anonymousId]\<rparr>)))"

text \<open>
  What follows the request of a send whose placeholder is \<open>tempId\<close>: an ok answer only
  arms the 500 ms timer; the timer, when it fires, and a failed answer both drop the
  placeholder.
\<close>

definition sendMessage_timeout :: "string \<Rightarrow> client \<Rightarrow> client" where
  "sendMessage_timeout tempId s =
     s\<lparr>messages := filter (\<lambda>m. id_msg m \<noteq> tempId) (messages s), isSending := False\<rparr>"

definition sendMessage_failed :: "string \<Rightarrow> unit fetched \<Rightarrow> client \<Rightarrow> client" where
  "sendMessage_failed tempId r s =
     s\<lparr>messages := filter (\<lambda>m. id_msg m \<noteq> tempId) (messages s),
       error := Some (case r of
                        Not_ok e \<Rightarrow> (case or_null e of Some m \<Rightarrow> m
                                     | None \<Rightarrow> ''Failed to send message'')
                      | Rejected (Some m) \<Rightarrow> m
                      | _ \<Rightarrow> ''Failed to send message''),
       isSending := False\<rparr>"

datatype send_event = Http_ok | Http_failed "unit fetched" | Timer_fired | Realtime_insert support_message

fun after_send :: "string \<Rightarrow> string \<Rightarrow> send_event \<Rightarrow> client \<Rightarrow> client" where
  "after_send conversationId tempId Http_ok s = s"
| "after_send conversationId tempId (Http_failed r) s = sendMessage_failed tempId r s"
| "after_send conversationId tempId Timer_fired s = sendMessage_timeout tempId s"
| "after_send conversationId tempId (Realtime_insert m) s = realtime_handler conversationId m s"

definition run_send :: "string \<Rightarrow> string \<Rightarrow> send_event list \<Rightarrow> client \<Rightarrow> client" where
  "run_send conversationId tempId evs s = fold (after_send conversationId tempId) evs s"

definition with_content :: "string \<Rightarrow> support_message list \<Rightarrow> nat" where
  "with_content text ms = length (filter (\<lambda>m. content m = Some text) ms)"

subsection \<open>Sequences of store operations\<close>

text \<open>
  Every action of the store, the asynchronous ones as their two halves, together with the
  two things that happen to the store from outside: a realtime \<^verbatim>\<open>INSERT\<close>, and the
  page writing or clearing the visitor id in \<^verbatim>\<open>localStorage\<close>. The closure that
  \<^verbatim>\<open>subscribeToMessages\<close> returns is not an action of the store; calls of it by
  other code are not among the operations.
\<close>

datatype store_op =
    OpenWidget
  | CloseWidget
  | ResetUnreadCount
  | IncrementUnreadCount
  | SetError "string option"
  | LoadConversations_request string
  | LoadConversations_response "support_conversation list fetched"
  | CreateConversation_request string string
  | CreateConversation_response "(support_conversation \<times> support_message list option) fetched"
  | SetCurrentConversation "support_conversation option"
  | LoadConversationMessages_request string string
  | LoadConversationMessages_response string "support_message list option fetched"
  | UpdateConversationStatus_request conversation_status
  | UpdateConversationStatus_response "support_conversation fetched"
  | SendMessage string "string option" string string string
  | SendMessage_failed string "unit fetched"
  | SendMessage_timeout string
  | SubscribeToMessages string
  | Realtime support_message
  | Store_anonymous_id "string option"

fun apply_op :: "store_op \<Rightarrow> client \<Rightarrow> client" where
  "apply_op OpenWidget s = openWidget s"
| "apply_op CloseWidget s = closeWidget s"
| "apply_op ResetUnreadCount s = resetUnreadCount s"
| "apply_op IncrementUnreadCount s = incrementUnreadCount s"
| "apply_op (SetError e) s = setError e s"
| "apply_op (LoadConversations_request a) s = loadConversations_request a s"
| "apply_op (LoadConversations_response r) s = loadConversations_response r s"
| "apply_op (CreateConversation_request a m) s = createConversation_request a m s"
| "apply_op (CreateConversation_response r) s = createConversation_response r s"
| "apply_op (SetCurrentConversation c) s = setCurrentConversation c s"
| "apply_op (LoadConversationMessages_request c a) s = loadConversationMessages_request c a s"
| "apply_op (LoadConversationMessages_response c r) s = loadConversationMessages_response c r s"
| "apply_op (UpdateConversationStatus_request st) s = updateConversationStatus_request st s"
| "apply_op (UpdateConversationStatus_response r) s = updateConversationStatus_response r s"
| "apply_op (SendMessage t i now rnd createdAt) s = sendMessage t i now rnd createdAt s"
| "apply_op (SendMessage_failed tempId r) s = sendMessage_failed tempId r s"
| "apply_op (SendMessage_timeout tempId) s = sendMessage_timeout tempId s"
| "apply_op (SubscribeToMessages c) s = subscribeToMessages c s"
| "apply_op (Realtime m) s = realtime_insert m s"
| "apply_op (Store_anonymous_id a) s = s\<lparr>support_anonymous_id := a\<rparr>"

definition run_ops :: "store_op list \<Rightarrow> client \<Rightarrow> client" where
  "run_ops ops s = fold apply_op ops s"

text \<open>The realtime subscriptions that are active: the open channels, by conversation.\<close>

definition active_subscriptions :: "client \<Rightarrow> string list" where
  "active_subscriptions s = map snd (channels s)"

text \<open>The slot and the open channels agree: no channel, or the one the slot names.\<close>

definition slot_owns_channels :: "client \<Rightarrow> bool" where
  "slot_owns_channels s =
     (channels s = (case activeSubscription s of None \<Rightarrow> [] | Some (c, h) \<Rightarrow> [(h, c)]))"

section \<open>The Telegram webhook\<close>

text \<open>
  A call of a collaborator either throws (or its promise rejects) or returns.
\<close>

datatype 'a outcome = Throws | Returns 'a

text \<open>
  The parts of a Telegram update that the handler reads. The fields \<^verbatim>\<open>from\<close> and
  \<^verbatim>\<open>text\<close> are renamed (both are keywords here), and \<^verbatim>\<open>id\<close> as above.
\<close>

record telegram_user =
  id_user :: int
  is_bot :: bool
  first_name :: string

record photo_size =
  file_id :: string

record telegram_message =
  message_id :: int
  message_thread_id :: "int option"
  from_user :: telegram_user
  text_msg :: "string option"
  caption :: "string option"
  photo :: "photo_size list option"

record telegram_update =
  update_id :: int
  message :: "telegram_message option"

record request =
  secret_header :: "string option"
  json_body :: "telegram_update option"

datatype response = Json_ok | Json_error string nat

text \<open>The argument of \<^verbatim>\<open>createMessage\<close>.\<close>

record new_message =
  new_conversation_id :: string
  new_sender_type :: sender
  new_sender_name :: string
  new_sender_telegram_id :: int
  new_content :: "string option"
  new_image_url :: "string option"

text \<open>
  The answers of the Telegram file API and of the storage upload. \<open>result_file_path\<close>
  is \<open>None\<close> when the body has no \<^verbatim>\<open>result\<close> object, and \<open>Some None\<close> when the
  object has no \<^verbatim>\<open>file_path\<close>.
\<close>

record file_data =
  ok_file :: bool
  result_file_path :: "string option option"

record download_response =
  ok_download :: bool
  content_type :: "string option"
  arrayBuffer :: "string outcome"

datatype upload_result = Upload_error string | Upload_data string

text \<open>
  The services and the environment of one invocation. \<^verbatim>\<open>supportService\<close>,
  \<^verbatim>\<open>telegramService\<close>, the storage client and \<^verbatim>\<open>fetch\<close> are collaborators whose code
  is not part of the handler: they are parameters. \<open>clock\<close> is \<^verbatim>\<open>Date.now()\<close> and
  \<open>random36\<close> is \<^verbatim>\<open>Math.random().toString(36).substring(2, 15)\<close>, as text.
\<close>

record services =
  TELEGRAM_WEBHOOK_SECRET :: "string option"
  TELEGRAM_BOT_TOKEN :: "string option"
  isFromSupportGroup :: "telegram_message \<Rightarrow> bool"
  extractThreadId :: "telegram_message \<Rightarrow> int option"
  isConfigured :: bool
  sendMessageToTopic :: "int \<Rightarrow> string \<Rightarrow> string \<Rightarrow> unit outcome"
  getConversationByThreadId :: "int \<Rightarrow> support_conversation option outcome"
  createMessage :: "new_message \<Rightarrow> support_message outcome"
  setMessageTelegramId :: "string \<Rightarrow> int \<Rightarrow> unit outcome"
  getFile :: "string \<Rightarrow> string \<Rightarrow> file_data outcome"
  download :: "string \<Rightarrow> string \<Rightarrow> download_response outcome"
  upload :: "string \<Rightarrow> string \<Rightarrow> string \<Rightarrow> upload_result outcome"
  getPublicUrl :: "string \<Rightarrow> string"
  clock :: string
  random36 :: string

text \<open>
  What an invocation leaves behind: the rows inserted by \<^verbatim>\<open>createMessage\<close>, the
  platform ids attached by \<^verbatim>\<open>setMessageTelegramId\<close>, the calls of
  \<^verbatim>\<open>sendMessageToTopic\<close> that were made (whether or not they went through), and the
  names of the objects put into storage.
\<close>

record effects =
  persisted :: "new_message list"
  telegram_ids :: "(string \<times> int) list"
  warnings :: "(int \<times> string \<times> string) list"
  stored_images :: "string list"

definition no_effects :: effects where
  "no_effects = \<lparr>persisted = [], telegram_ids = [], warnings = [], stored_images = []\<rparr>"

text \<open>\<^verbatim>\<open>filePath.split('.').pop() || 'jpg'\<close>\<close>

definition extension :: "string \<Rightarrow> string" where
  "extension filePath =
     (let e = rev (takeWhile (\<lambda>c. c \<noteq> CHR ''.'') (rev filePath))
      in if e = [] then ''jpg'' else e)"

text \<open>
  The helper returns the public URL or \<^verbatim>\<open>null\<close>, and with it the objects it stored.
  Its body is one \<^verbatim>\<open>try\<close> whose \<^verbatim>\<open>catch\<close> returns \<^verbatim>\<open>null\<close>.
\<close>

definition downloadAndUploadTelegramPhoto ::
  "services \<Rightarrow> string \<Rightarrow> string \<Rightarrow> string option \<times> string list" where
  "downloadAndUploadTelegramPhoto env fileId botToken =
     (case getFile env botToken fileId of
        Throws \<Rightarrow> (None, [])
      | Returns fileData \<Rightarrow>
          if \<not> ok_file fileData then (None, [])
          else
            (case result_file_path fileData of
               None \<Rightarrow> (None, [])
             | Some None \<Rightarrow> (None, [])
             | Some (Some filePath) \<Rightarrow>
                 if filePath = [] then (None, [])
                 else
                   (case download env botToken filePath of
                      Throws \<Rightarrow> (None, [])
                    | Returns downloadResponse \<Rightarrow>
                        if \<not> ok_download downloadResponse then (None, [])
                        else
                          (case arrayBuffer downloadResponse of
                             Throws \<Rightarrow> (None, [])
                           | Returns fileBuffer \<Rightarrow>
                               (let filename = ''telegram_'' @ clock env @ ''_'' @ random36 env
                                                 @ ''.'' @ extension filePath;
                                    contentType =
                                      (case or_null (content_type downloadResponse) of
                                         Some t \<Rightarrow> t | None \<Rightarrow> ''image/jpeg'')
                                in case upload env filename fileBuffer contentType of
                                     Throws \<Rightarrow> (None, [])
                                   | Returns (Upload_error e) \<Rightarrow> (None, [])
                                   | Returns (Upload_data path) \<Rightarrow>
                                       (Some (getPublicUrl env path), [filename]))))))"

text \<open>The warning posted to a topic without a conversation; its first six bytes are the
  UTF-8 form of the warning sign.\<close>

definition warning_text :: string where
  "warning_text = [CHR 0xE2, CHR 0x9A, CHR 0xA0, CHR 0xEF, CHR 0xB8, CHR 0x8F]
     @ '' <b>Warning:</b> This topic is not linked to any active conversation.''"

text \<open>Steps 5 and 6 of the handler: the content, the image, and the two writes.\<close>

definition save_message ::
  "services \<Rightarrow> telegram_message \<Rightarrow> support_conversation \<Rightarrow> response outcome \<times> effects" where
  "save_message env msg conversation =
     (let content' = (if truthy (text_msg msg) then text_msg msg else or_null (caption msg));
          (imageUrl, stored) =
            (case photo msg of
               None \<Rightarrow> (None, [])
             | Some ps \<Rightarrow>
                 if length ps > 0 then
                   (let largestPhoto = ps ! (length ps - 1);
                        fileId = file_id largestPhoto
                    in case TELEGRAM_BOT_TOKEN env of
                         None \<Rightarrow> (None, [])
                       | Some botToken \<Rightarrow>
                           if botToken = [] then (None, [])
                           else (let (url, objs) = downloadAndUploadTelegramPhoto env fileId botToken
                                 in (or_null url, objs)))
                 else (None, []));
          fx = no_effects\<lparr>stored_images := stored\<rparr>
      in if \<not> truthy content' \<and> \<not> truthy imageUrl then (Returns Json_ok, fx)
         else
           (let fields = \<lparr>new_conversation_id = id_conv conversation,
                           new_sender_type = Support,
                           new_sender_name = first_name (from_user msg),
                           new_sender_telegram_id = id_user (from_user msg),
                           new_content = content',
                            new_image_url = imageUrl\<rparr>
            in case createMessage env fields of
                 Throws \<Rightarrow> (Throws, fx)
               | Returns supportMessage \<Rightarrow>
                   (case setMessageTelegramId env (id_msg supportMessage) (message_id msg) of
                      Throws \<Rightarrow> (Throws, fx\<lparr>persisted := [fields]\<rparr>)
                    | Returns u \<Rightarrow>
                        (Returns Json_ok,
                         fx\<lparr>persisted := [fields],
                            telegram_ids := [(id_msg supportMessage, message_id msg)]\<rparr>))))"

text \<open>Steps 3 and 4: the body of the outer \<^verbatim>\<open>try\<close> after the update is parsed.\<close>

definition handle_update :: "services \<Rightarrow> telegram_update \<Rightarrow> response outcome \<times> effects" where
  "handle_update env update =
     (case message update of
        None \<Rightarrow> (Returns Json_ok, no_effects)
      | Some msg \<Rightarrow>
          if \<not> isFromSupportGroup env msg then (Returns Json_ok, no_effects)
          else
            (case extractThreadId env msg of
               None \<Rightarrow> (Returns Json_ok, no_effects)
             | Some threadId \<Rightarrow>
                 if threadId = 0 then (Returns Json_ok, no_effects)
                 else if is_bot (from_user msg) then (Returns Json_ok, no_effects)
                 else
                   (case getConversationByThreadId env threadId of
                      Throws \<Rightarrow> (Throws, no_effects)
                    | Returns None \<Rightarrow>
                        if isConfigured env then
                          (case sendMessageToTopic env threadId warning_text ''System'' of
                             Throws \<Rightarrow>
                               (Returns Json_ok,
                                no_effects\<lparr>warnings := [(threadId, warning_text, ''System'')]\<rparr>)
                           | Returns u \<Rightarrow>
                               (Returns Json_ok,
                                no_effects\<lparr>warnings := [(threadId, warning_text, ''System'')]\<rparr>))
                        else (Returns Json_ok, no_effects)
                    | Returns (Some conversation) \<Rightarrow> save_message env msg conversation)))"

definition POST :: "services \<Rightarrow> request \<Rightarrow> response \<times> effects" where
  "POST env req =
     (if \<not> truthy (TELEGRAM_WEBHOOK_SECRET env)
      then (Json_error ''Webhook not configured'' 500, no_effects)
      else if secret_header req \<noteq> TELEGRAM_WEBHOOK_SECRET env
      then (Json_error ''Unauthorized'' 401, no_effects)
      else
        (case json_body req of
           None \<Rightarrow> (Json_error ''Invalid JSON'' 400, no_effects)
         | Some update \<Rightarrow>
             (case handle_update env update of
                (Throws, fx) \<Rightarrow> (Json_ok, fx)
              | (Returns r, fx) \<Rightarrow> (r, fx))))"

section \<open>The chat input component\<close>

text \<open>
  The local state of \<^verbatim>\<open>SupportChatInput\<close> (its \<^verbatim>\<open>useState\<close> cells; the cell
  \<^verbatim>\<open>message\<close> is renamed, the update above has a field of that name) and the file
  the visitor picked.
\<close>

record image_file =
  file_type :: string
  file_size :: nat

record input_state =
  message_input :: string
  selectedImage :: "image_file option"
  imagePreview :: "string option"
  isUploading :: bool
  isSubmitting :: bool

text \<open>
  \<^verbatim>\<open>String.prototype.trim\<close> removes white space and line terminators from both
  ends. A text is its UTF-8 bytes here, so the characters that \<^verbatim>\<open>trim\<close> removes are
  byte sequences: U+0009 to U+000D, U+0020, U+00A0, U+1680, U+2000 to U+200A, U+2028,
  U+2029, U+202F, U+205F, U+3000 and U+FEFF. No encoding of a character is the start or
  the end of the encoding of another one, so a sequence that is a prefix (a suffix) of a
  text is its first (last) character.
\<close>

definition white_space :: "string list" where
  "white_space =
     [[CHR 0x09], [CHR 0x0A], [CHR 0x0B], [CHR 0x0C], [CHR 0x0D], [CHR 0x20],
      [CHR 0xC2, CHR 0xA0],
      [CHR 0xE1, CHR 0x9A, CHR 0x80],
      [CHR 0xE2, CHR 0x80, CHR 0x80], [CHR 0xE2, CHR 0x80, CHR 0x81],
      [CHR 0xE2, CHR 0x80, CHR 0x82], [CHR 0xE2, CHR 0x80, CHR 0x83],
      [CHR 0xE2, CHR 0x80, CHR 0x84], [CHR 0xE2, CHR 0x80, CHR 0x85],
      [CHR 0xE2, CHR 0x80, CHR 0x86], [CHR 0xE2, CHR 0x80, CHR 0x87],
      [CHR 0xE2, CHR 0x80, CHR 0x88], [CHR 0xE2, CHR 0x80, CHR 0x89],
      [CHR 0xE2, CHR 0x80, CHR 0x8A],
      [CHR 0xE2, CHR 0x80, CHR 0xA8], [CHR 0xE2, CHR 0x80, CHR 0xA9],
      [CHR 0xE2, CHR 0x80, CHR 0xAF],
      [CHR 0xE2, CHR 0x81, CHR 0x9F],
      [CHR 0xE3, CHR 0x80, CHR 0x80],
      [CHR 0xEF, CHR 0xBB, CHR 0xBF]]"

function trimStart :: "string list \<Rightarrow> string \<Rightarrow> string" where
  "trimStart ws t =
     (case find (\<lambda>w. w \<noteq> [] \<and> prefix w t) ws of
        None \<Rightarrow> t
      | Some w \<Rightarrow> trimStart ws (drop (length w) t))"
  by pat_completeness auto
termination
  by (relation "measure (\<lambda>(ws, t). length t)") (auto simp: find_Some_iff prefix_def)

declare trimStart.simps [simp del]

definition trimEnd :: "string list \<Rightarrow> string \<Rightarrow> string" where
  "trimEnd ws t = rev (trimStart (map rev ws) (rev t))"

definition trim :: "string \<Rightarrow> string" where
  "trim t = trimEnd white_space (trimStart white_space t)"

text \<open>
  The elements of the rendered tree that carry an event handler. The component returns one
  of two trees: the notice with the button \<^verbatim>\<open>Start New Ticket\<close>, or the form.
\<close>

datatype control =
    Start_new_ticket
  | Dismiss_error
  | Form_submit
  | Remove_image
  | File_input
  | Attach_image
  | Text_input
  | Send_button

definition is_closed_or_resolved :: "client \<Rightarrow> bool" where
  "is_closed_or_resolved s =
     (case currentConversation s of
        None \<Rightarrow> False
      | Some conv \<Rightarrow> status conv = Closed \<or> status conv = Resolved)"

definition SupportChatInput :: "input_state \<Rightarrow> client \<Rightarrow> control list" where
  "SupportChatInput ui s =
     (if is_closed_or_resolved s then [Start_new_ticket]
      else (if truthy (error s) then [Dismiss_error] else [])
           @ [Form_submit]
           @ (if truthy (imagePreview ui) then [Remove_image] else [])
           @ [File_input, Attach_image, Text_input, Send_button])"

definition clearImage :: "input_state \<Rightarrow> input_state" where
  "clearImage ui = ui\<lparr>selectedImage := None, imagePreview := None\<rparr>"

definition handleImageSelect ::
  "image_file option \<Rightarrow> string \<Rightarrow> input_state \<times> client \<Rightarrow> input_state \<times> client" where
  "handleImageSelect file dataUrl = (\<lambda>(ui, s).
     case file of
       None \<Rightarrow> (ui, s)
     | Some f \<Rightarrow>
         if file_type f \<notin> set [''image/jpeg'', ''image/png'', ''image/gif'', ''image/webp'']
         then (ui, setError
                 (Some ''Invalid file type. Only JPEG, PNG, GIF, and WebP are allowed.'') s)
         else if file_size f > 5 * 1024 * 1024
         then (ui, setError (Some ''Image too large. Maximum size is 5MB.'') s)
         else (ui\<lparr>selectedImage := Some f, imagePreview := Some dataUrl\<rparr>, s))"

text \<open>
  \<^verbatim>\<open>handleSubmit\<close> up to the call of the store action, with the answer of the upload
  as an argument; the \<^verbatim>\<open>finally\<close> that resets \<^verbatim>\<open>isSubmitting\<close> runs when the store
  action has settled.
\<close>

definition handleSubmit ::
  "string \<Rightarrow> string option fetched \<Rightarrow> string \<Rightarrow> string \<Rightarrow> string \<Rightarrow>
   input_state \<times> client \<Rightarrow> input_state \<times> client" where
  "handleSubmit anonymousId uploaded now rnd createdAt = (\<lambda>(ui, s).
     if isSubmitting ui \<or> isSending s \<or> anonymousId = []
        \<or> (trim (message_input ui) = [] \<and> selectedImage ui = None)
     then (ui, s)
     else
       (let messageText = trim (message_input ui);
            s1 = (case selectedImage ui of
                    None \<Rightarrow> s
                  | Some f \<Rightarrow> s\<lparr>network := network s @ [POST_upload]\<rparr>);
            failed = (selectedImage ui \<noteq> None \<and> (case uploaded of Ok u \<Rightarrow> False | _ \<Rightarrow> True));
            imageUrl = (case selectedImage ui of
                          None \<Rightarrow> None
                        | Some f \<Rightarrow> (case uploaded of Ok u \<Rightarrow> u | _ \<Rightarrow> None))
        in if failed
           then (ui\<lparr>isUploading := False, isSubmitting := False\<rparr>,
                 setError (Some ''Failed to upload image. Please try again.'') s1)
           else
             (let ui1 = (clearImage (ui\<lparr>message_input := []\<rparr>))
                          \<lparr>isUploading := False, isSubmitting := True\<rparr>
              in case currentConversation s1 of
                   None \<Rightarrow>
                     (ui1, createConversation_request anonymousId
                             (if messageText = [] then ''Image'' else messageText) s1)
                 | Some conv \<Rightarrow>
                     (ui1, sendMessage messageText imageUrl now rnd createdAt s1))))"

definition start_new_ticket :: "input_state \<times> client \<Rightarrow> input_state \<times> client" where
  "start_new_ticket = (\<lambda>(ui, s).
     (ui\<lparr>message_input := []\<rparr>,
      setError None (s\<lparr>currentConversation := None, messages := []\<rparr>)))"

text \<open>
  What the handler of each control does. The arguments that only some handlers use (the
  typed text, the picked file and its preview, the answer of the upload, clock values)
  are gathered in one record.
\<close>

record ui_input =
  typed :: string
  picked :: "image_file option"
  preview :: string
  uploaded_answer :: "string option fetched"
  now_text :: string
  random_text :: string
  iso_text :: string

definition on_control ::
  "string \<Rightarrow> ui_input \<Rightarrow> control \<Rightarrow> input_state \<times> client \<Rightarrow> input_state \<times> client" where
  "on_control anonymousId i c = (\<lambda>(ui, s).
     case c of
       Start_new_ticket \<Rightarrow> start_new_ticket (ui, s)
     | Dismiss_error \<Rightarrow> (ui, setError None s)
     | Form_submit \<Rightarrow>
         handleSubmit anonymousId (uploaded_answer i) (now_text i) (random_text i) (iso_text i)
           (ui, s)
     | Send_button \<Rightarrow>
         handleSubmit anonymousId (uploaded_answer i) (now_text i) (random_text i) (iso_text i)
           (ui, s)
     | Remove_image \<Rightarrow> (clearImage ui, s)
     | File_input \<Rightarrow> handleImageSelect (picked i) (preview i) (ui, s)
     | Attach_image \<Rightarrow> (ui, s)
     | Text_input \<Rightarrow> (ui\<lparr>message_input := typed i\<rparr>, s))"

section \<open>Example data\<close>

text \<open>
  Concrete values on which the properties below are instantiated: a visitor with an open
  conversation, and a webhook environment in which the secret is \<^verbatim>\<open>s3cret\<close>, thread 7
  belongs to that conversation, the file \<^verbatim>\<open>small\<close> can be fetched and every other
  file cannot.
\<close>

definition example_conversation :: support_conversation where
  "example_conversation = \<lparr>id_conv = ''c1'', status = Open\<rparr>"

definition example_client :: client where
  "example_client = initial_client\<lparr>currentConversation := Some example_conversation,
     support_anonymous_id := Some ''visitor''\<rparr>"

definition example_reply :: "string \<Rightarrow> sender \<Rightarrow> string \<Rightarrow> support_message" where
  "example_reply i who t = \<lparr>id_msg = i, conversation_id = ''c1'', sender_type = who,
     sender_name = None, sender_telegram_id = None, content = Some t, image_url = None,
     telegram_message_id = None, is_read = False, read_at = None,
     created_at = ''2024-01-01T00:00:00.000Z''\<rparr>"

definition example_agent :: telegram_user where
  "example_agent = \<lparr>id_user = 1001, is_bot = False, first_name = ''Agent''\<rparr>"

definition example_message :: telegram_message where
  "example_message = \<lparr>message_id = 55, message_thread_id = Some 7, from_user = example_agent,
     text_msg = Some ''See photo'', caption = None,
     photo = Some [\<lparr>file_id = ''small''\<rparr>, \<lparr>file_id = ''large''\<rparr>]\<rparr>"

definition example_row :: "new_message \<Rightarrow> support_message" where
  "example_row f = \<lparr>id_msg = ''m1'', conversation_id = new_conversation_id f,
     sender_type = new_sender_type f, sender_name = Some (new_sender_name f),
     sender_telegram_id = Some (new_sender_telegram_id f), content = new_content f,
     image_url = new_image_url f, telegram_message_id = None, is_read = False,
     read_at = None, created_at = ''2024-01-01T00:00:00.000Z''\<rparr>"

definition example_services :: services where
  "example_services = \<lparr>TELEGRAM_WEBHOOK_SECRET = Some ''s3cret'',
     TELEGRAM_BOT_TOKEN = Some ''bot-token'',
     isFromSupportGroup = (\<lambda>m. True),
     extractThreadId = message_thread_id,
     isConfigured = True,
     sendMessageToTopic = (\<lambda>t h l. Throws),
     getConversationByThreadId =
       (\<lambda>t. if t = 7 then Returns (Some example_conversation) else Returns None),
     createMessage = (\<lambda>f. Returns (example_row f)),
     setMessageTelegramId = (\<lambda>i n. Returns ()),
     getFile = (\<lambda>tok fid. if fid = ''small''
                  then Returns \<lparr>ok_file = True, result_file_path = Some (Some ''photos/small.jpg'')\<rparr>
                  else Throws),
     download = (\<lambda>tok p. Returns \<lparr>ok_download = True, content_type = Some ''image/jpeg'',
                   arrayBuffer = Returns ''bytes''\<rparr>),
     upload = (\<lambda>n b c. Returns (Upload_data n)),
     getPublicUrl = (\<lambda>p. ''https://storage.example/'' @ p),
     clock = ''1700000000000'',
     random36 = ''abc123''\<rparr>"

text \<open>
  Two more environments, in which the metadata of every file is there and only one later
  step fails, for the file \<^verbatim>\<open>large\<close> alone: its download, or its upload.
\<close>

definition example_paths :: "string \<Rightarrow> string \<Rightarrow> file_data outcome" where
  "example_paths tok fid =
     Returns \<lparr>ok_file = True, result_file_path = Some (Some (''photos/'' @ fid @ ''.jpg''))\<rparr>"

definition example_download_fails :: services where
  "example_download_fails = example_services\<lparr>
     getFile := example_paths,
     download := (\<lambda>tok p. if p = ''photos/large.jpg'' then Throws
                    else Returns \<lparr>ok_download = True, content_type = Some ''image/jpeg'',
                           arrayBuffer = Returns (''bytes of '' @ p)\<rparr>)\<rparr>"

definition example_upload_fails :: services where
  "example_upload_fails = example_services\<lparr>
     getFile := example_paths,
     download := (\<lambda>tok p. Returns \<lparr>ok_download = True, content_type = None,
                           arrayBuffer = Returns (''bytes of '' @ p)\<rparr>),
     upload := (\<lambda>n b c. if b = ''bytes of photos/large.jpg''
                  then Returns (Upload_error ''mime type not allowed'')
                  else Returns (Upload_data n))\<rparr>"

definition example_request :: "telegram_message option \<Rightarrow> request" where
  "example_request m = \<lparr>secret_header = Some ''s3cret'',
     json_body = Some \<lparr>update_id = 1, message = m\<rparr>\<rparr>"

section \<open>Properties of the client store\<close>

lemma getItem_setItem: "getItem k (setItem k v kvs) = Some v"
  by (induction kvs) (auto simp: getItem_def)

lemma prefix_temp_id: "prefix ''temp_'' (temp_id now rnd)"
  by (simp add: temp_id_def)

lemma messages_sendMessage:
  "currentConversation s = Some conv \<Longrightarrow> support_anonymous_id s = Some a \<Longrightarrow> a \<noteq> [] \<Longrightarrow>
   \<exists>m. messages (sendMessage t i now rnd createdAt s) = messages s @ [m]
       \<and> id_msg m = temp_id now rnd \<and> content m = or_null (Some t)"
  by (simp add: sendMessage_def Let_def)

lemma messages_realtime_handler:
  "\<not> list_ex (\<lambda>m. id_msg m = id_msg new) (messages s) \<Longrightarrow>
   messages (realtime_handler c new s) = filter (\<lambda>m. \<not> prefix ''temp_'' (id_msg m)) (messages s) @ [new]"
  by (simp add: realtime_handler_def Let_def)

lemma messages_timeout:
  "messages (sendMessage_timeout t s) = filter (\<lambda>m. id_msg m \<noteq> t) (messages s)"
  by (simp add: sendMessage_timeout_def)

lemma messages_failed:
  "messages (sendMessage_failed t r s) = filter (\<lambda>m. id_msg m \<noteq> t) (messages s)"
  by (simp add: sendMessage_failed_def)

lemma with_content_none:
  "\<forall>m\<in>set ms. content m \<noteq> Some t \<Longrightarrow> with_content t (filter P ms) = 0"
  by (induction ms) (auto simp: with_content_def)

lemma with_content_append: "with_content t (xs @ ys) = with_content t xs + with_content t ys"
  by (simp add: with_content_def)

lemma filter_placeholder_cleanup:
  assumes "prefix ''temp_'' t"
  shows "filter (\<lambda>m. id_msg m \<noteq> t) (filter (\<lambda>m. \<not> prefix ''temp_'' (id_msg m)) ms)
           = filter (\<lambda>m. \<not> prefix ''temp_'' (id_msg m)) ms"
    and "filter (\<lambda>m. \<not> prefix ''temp_'' (id_msg m)) (filter (\<lambda>m. id_msg m \<noteq> t) ms)
           = filter (\<lambda>m. \<not> prefix ''temp_'' (id_msg m)) ms"
  using assms by (induction ms) auto

text \<open>
  Claim C1 (optimistic substitution). A visitor with a current conversation and a stored
  visitor id sends a non-empty text that no message of the list carries yet; the realtime
  \<^verbatim>\<open>INSERT\<close> of the persisted row (same text, an id that is new to the list and outside
  the placeholder namespace) arrives. Right after the send the list shows the text once
  (the placeholder). After the realtime event the list is the messages of before without
  the placeholders, followed by the persisted message at the tail, and it shows the text
  exactly once: whether the event comes before or after the HTTP answer, before or after
  the 500 ms timer, or around a failed answer; and so in every later state of those runs.
\<close>

theorem C1_optimistic_substitution:
  assumes conv: "currentConversation s = Some conv"
    and anon: "support_anonymous_id s = Some anonymousId" "anonymousId \<noteq> []"
    and nonempty: "body \<noteq> []"
    and fresh: "\<forall>m\<in>set (messages s). content m \<noteq> Some body"
    and real: "content real = Some body"
    and new: "\<forall>m\<in>set (messages s). id_msg m \<noteq> id_msg real"
    and server: "\<not> prefix ''temp_'' (id_msg real)"
  shows "with_content body (messages (sendMessage body imageUrl now rnd createdAt s)) = 1
    \<and> (\<forall>evs \<in> set [[Realtime_insert real],
                     [Realtime_insert real, Http_ok],
                     [Realtime_insert real, Http_ok, Timer_fired],
                     [Http_ok, Realtime_insert real],
                     [Http_ok, Realtime_insert real, Timer_fired],
                     [Http_ok, Timer_fired, Realtime_insert real],
                     [Realtime_insert real, Http_failed r],
                     [Http_failed r, Realtime_insert real]].
          messages (run_send c (temp_id now rnd) evs
             (sendMessage body imageUrl now rnd createdAt s))
            = filter (\<lambda>m. \<not> prefix ''temp_'' (id_msg m)) (messages s) @ [real]
          \<and> with_content body (messages (run_send c (temp_id now rnd) evs
             (sendMessage body imageUrl now rnd createdAt s))) = 1)"
proof -
  define s1 where "s1 = sendMessage body imageUrl now rnd createdAt s"
  define t where "t = temp_id now rnd"
  define kept where "kept = filter (\<lambda>m. \<not> prefix ''temp_'' (id_msg m)) (messages s)"
  obtain tm where tm: "messages s1 = messages s @ [tm]" "id_msg tm = t" "content tm = Some body"
    using messages_sendMessage [OF conv anon, of body imageUrl now rnd createdAt] nonempty
    by (auto simp: s1_def t_def or_null_def)
  have pt: "prefix ''temp_'' t" by (simp add: t_def prefix_temp_id)
  have ne: "id_msg real \<noteq> t" using pt server by auto
  have zero: "with_content body (messages s) = 0" "with_content body kept = 0"
    using with_content_none [OF fresh, of "\<lambda>m. True"] with_content_none [OF fresh]
    by (simp_all add: kept_def)
  have one: "with_content body [real] = 1" "with_content body [tm] = 1"
    using real tm by (simp_all add: with_content_def)
  have first: "with_content body (messages s1) = 1"
    by (simp add: tm with_content_append zero one)
  have final: "with_content body (kept @ [real]) = 1"
    by (simp add: with_content_append zero one)
  have absent1: "\<not> list_ex (\<lambda>m. id_msg m = id_msg real) (messages s1)"
    using new ne tm by (auto simp: list_ex_iff)
  have early: "messages (realtime_handler c real s1) = kept @ [real]"
    using messages_realtime_handler [OF absent1] pt tm by (simp add: kept_def)
  have early_cleanup:
    "filter (\<lambda>m. id_msg m \<noteq> t) (messages (realtime_handler c real s1)) = kept @ [real]"
    using ne filter_placeholder_cleanup(1) [OF pt, of "messages s"] by (simp add: early kept_def)
  have cleaned: "filter (\<lambda>m. id_msg m \<noteq> t) (messages s1) = filter (\<lambda>m. id_msg m \<noteq> t) (messages s)"
    using tm by simp
  have late: "messages (realtime_handler c real s2) = kept @ [real]"
    if m2: "messages s2 = filter (\<lambda>m. id_msg m \<noteq> t) (messages s1)" for s2 :: client
  proof -
    have "\<not> list_ex (\<lambda>m. id_msg m = id_msg real) (messages s2)"
      using new by (auto simp: m2 cleaned list_ex_iff)
    from messages_realtime_handler [OF this, of c]
    show ?thesis
      using filter_placeholder_cleanup(2) [OF pt, of "messages s"]
      by (simp add: m2 cleaned kept_def)
  qed
  show ?thesis
    unfolding s1_def [symmetric] t_def [symmetric] kept_def [symmetric]
    using first final early early_cleanup late [OF messages_timeout] late [OF messages_failed]
    by (simp add: run_send_def messages_timeout messages_failed)
qed

theorem C1_optimistic_substitution_witness:
  "with_content ''Hello'' (messages (sendMessage ''Hello'' None ''17'' ''0.5'' ''now'' example_client)) = 1
   \<and> with_content ''Hello'' (messages (run_send ''c1'' (temp_id ''17'' ''0.5'')
         [Http_ok, Timer_fired, Realtime_insert (example_reply ''m1'' User ''Hello'')]
         (sendMessage ''Hello'' None ''17'' ''0.5'' ''now'' example_client))) = 1"
  using C1_optimistic_substitution [where s = example_client and conv = example_conversation
      and anonymousId = "''visitor''" and body = "''Hello''"
      and real = "example_reply ''m1'' User ''Hello''" and imageUrl = None
      and now = "''17''" and rnd = "''0.5''" and createdAt = "''now''" and c = "''c1''"]
  by (simp add: example_client_def example_reply_def initial_client_def with_content_def)

text \<open>
  The runs above end with the realtime event or have it before the timer. When the timer
  fires first, the list shows the text zero times until the event arrives.
\<close>

lemma placeholder_gap_before_late_event:
  "with_content ''Hello'' (messages (run_send ''c1'' (temp_id ''17'' ''0.5'')
      [Http_ok, Timer_fired]
      (sendMessage ''Hello'' None ''17'' ''0.5'' ''now'' example_client))) = 0"
  by (simp add: run_send_def sendMessage_def sendMessage_timeout_def example_client_def
        example_conversation_def initial_client_def with_content_def Let_def)

text \<open>
  Claim C2 (idempotence of the realtime handler). An \<^verbatim>\<open>INSERT\<close> event for a message
  whose id is already in the list leaves the whole client state as it is: the list, the
  unread counter and the cache. Hence delivering one event twice gives the state that
  delivering it once gives.
\<close>

theorem C2_realtime_handler_idempotent:
  "(list_ex (\<lambda>m. id_msg m = id_msg newMessage) (messages s) \<longrightarrow>
      realtime_handler c newMessage s = s)
   \<and> realtime_handler c newMessage (realtime_handler c newMessage s)
       = realtime_handler c newMessage s"
  by (simp add: realtime_handler_def Let_def list_ex_iff)

theorem C2_realtime_handler_idempotent_witness:
  "realtime_handler ''c1'' (example_reply ''m1'' Support ''Hi'')
     (example_client\<lparr>messages := [example_reply ''m1'' Support ''Hi'']\<rparr>)
   = example_client\<lparr>messages := [example_reply ''m1'' Support ''Hi'']\<rparr>"
  using C2_realtime_handler_idempotent [of "example_reply ''m1'' Support ''Hi''"
      "example_client\<lparr>messages := [example_reply ''m1'' Support ''Hi'']\<rparr>" "''c1''"]
  by simp

text \<open>
  Claim C6 (cache coherence of \<^verbatim>\<open>loadConversationMessages\<close>). When the server
  answers with a non-empty list, the cache entry of the conversation holds exactly that
  list, in the same order, and so does the store. When it answers with no list or an
  empty one, the store's list becomes empty and \<^verbatim>\<open>localStorage\<close> is not written.
\<close>

theorem C6_cache_coherence:
  "(ms \<noteq> [] \<longrightarrow>
      getItem (cache_key c) (localStorage (loadConversationMessages c a (Ok (Some ms)) s)) = Some ms
      \<and> messages (loadConversationMessages c a (Ok (Some ms)) s) = ms)
   \<and> (r = Ok None \<or> r = Ok (Some []) \<longrightarrow>
      messages (loadConversationMessages c a r s) = []
      \<and> localStorage (loadConversationMessages c a r s) = localStorage s)"
  by (auto simp: loadConversationMessages_def loadConversationMessages_request_def
        loadConversationMessages_response_def Let_def getItem_setItem)

theorem C6_cache_coherence_witness:
  "getItem (cache_key ''c1'') (localStorage (loadConversationMessages ''c1'' ''visitor''
       (Ok (Some [example_reply ''m1'' User ''Hello'', example_reply ''m2'' Support ''Hi''])) example_client))
     = Some [example_reply ''m1'' User ''Hello'', example_reply ''m2'' Support ''Hi'']
   \<and> localStorage (loadConversationMessages ''c1'' ''visitor'' (Ok (Some []))
        (example_client\<lparr>localStorage := [(cache_key ''c1'', [example_reply ''m1'' User ''Hello''])]\<rparr>))
     = [(cache_key ''c1'', [example_reply ''m1'' User ''Hello''])]"
  using C6_cache_coherence [where ms = "[example_reply ''m1'' User ''Hello'', example_reply ''m2'' Support ''Hi'']"
        and c = "''c1''" and a = "''visitor''" and s = example_client]
    C6_cache_coherence [where c = "''c1''" and a = "''visitor''" and r = "Ok (Some [])"
        and s = "example_client\<lparr>localStorage := [(cache_key ''c1'', [example_reply ''m1'' User ''Hello''])]\<rparr>"]
  by simp

subsection \<open>One subscription at a time\<close>

lemma realtime_handler_subscription:
  "channels (realtime_handler c m s) = channels s
   \<and> activeSubscription (realtime_handler c m s) = activeSubscription s"
  by (simp add: realtime_handler_def Let_def)

lemma realtime_fold_subscription:
  "channels (fold (\<lambda>(h, c) st. if c = k then realtime_handler c m st else st) chs s) = channels s
   \<and> activeSubscription (fold (\<lambda>(h, c) st. if c = k then realtime_handler c m st else st) chs s)
       = activeSubscription s"
  by (induction chs arbitrary: s) (auto simp: realtime_handler_subscription)

lemma slot_owns_channels_realtime_insert:
  "slot_owns_channels s \<Longrightarrow> slot_owns_channels (realtime_insert m s)"
  by (simp add: slot_owns_channels_def realtime_insert_def realtime_fold_subscription)

lemma slot_owns_channels_subscribeToMessages:
  "slot_owns_channels s \<Longrightarrow> slot_owns_channels (subscribeToMessages c s)"
  by (auto simp: slot_owns_channels_def subscribeToMessages_def unsubscribe_def Let_def
        split: option.splits)

lemma slot_owns_channels_setCurrentConversation:
  "slot_owns_channels s \<Longrightarrow> slot_owns_channels (setCurrentConversation c s)"
  by (auto simp: slot_owns_channels_def setCurrentConversation_def subscribeToMessages_def
        unsubscribe_def loadConversationMessages_request_def Let_def split: option.splits)

lemma slot_owns_channels_createConversation_response:
  "slot_owns_channels s \<Longrightarrow> slot_owns_channels (createConversation_response r s)"
proof (cases r)
  case (Ok p)
  assume inv: "slot_owns_channels s"
  obtain conv ms where p: "p = (conv, ms)" by (cases p)
  have "slot_owns_channels (s\<lparr>currentConversation := Some conv,
          messages := (case ms of Some ms \<Rightarrow> ms | None \<Rightarrow> []), isLoading := False\<rparr>)"
    using inv by (simp add: slot_owns_channels_def)
  from slot_owns_channels_subscribeToMessages [OF this]
  show ?thesis by (simp add: createConversation_response_def Ok p)
qed (simp_all add: createConversation_response_def slot_owns_channels_def)

lemma slot_owns_channels_apply_op:
  "slot_owns_channels s \<Longrightarrow> slot_owns_channels (apply_op op s)"
proof (cases op)
  case (CreateConversation_response r)
  assume "slot_owns_channels s"
  then show ?thesis
    by (simp add: CreateConversation_response slot_owns_channels_createConversation_response)
next
  case (SetCurrentConversation c)
  assume "slot_owns_channels s"
  then show ?thesis
    by (simp add: SetCurrentConversation slot_owns_channels_setCurrentConversation)
next
  case (SubscribeToMessages c)
  assume "slot_owns_channels s"
  then show ?thesis
    by (simp add: SubscribeToMessages slot_owns_channels_subscribeToMessages)
next
  case (Realtime m)
  assume "slot_owns_channels s"
  then show ?thesis
    by (simp add: Realtime slot_owns_channels_realtime_insert)
qed (auto simp: slot_owns_channels_def openWidget_def closeWidget_def resetUnreadCount_def
       incrementUnreadCount_def setError_def loadConversations_request_def
       loadConversations_response_def createConversation_request_def
       loadConversationMessages_request_def loadConversationMessages_response_def
       updateConversationStatus_request_def updateConversationStatus_response_def
       sendMessage_def sendMessage_failed_def sendMessage_timeout_def Let_def
       split: fetched.splits option.splits)

lemma slot_owns_channels_run_ops:
  "slot_owns_channels s \<Longrightarrow> slot_owns_channels (run_ops ops s)"
  unfolding run_ops_def
  by (induction ops arbitrary: s) (simp_all add: slot_owns_channels_apply_op)

lemma slot_owns_channels_at_most_one:
  "slot_owns_channels s \<Longrightarrow> length (active_subscriptions s) \<le> 1"
  by (auto simp: slot_owns_channels_def active_subscriptions_def split: option.splits)

lemma subscribeToMessages_unsubscribed:
  "activeSubscription s = None \<Longrightarrow>
   channels (subscribeToMessages c s) = channels s @ [(next_channel s, c)]
   \<and> support_anonymous_id (subscribeToMessages c s) = support_anonymous_id s"
  by (simp add: subscribeToMessages_def Let_def)

lemma setCurrentConversation_Some:
  assumes "slot_owns_channels s"
  shows "active_subscriptions (setCurrentConversation (Some conv) s)
           = (if truthy (support_anonymous_id s) then [id_conv conv] else [])
         \<and> support_anonymous_id (setCurrentConversation (Some conv) s) = support_anonymous_id s"
proof -
  define s1 where "s1 = (case activeSubscription s of
                  Some (c, ch) \<Rightarrow> (unsubscribe ch s)\<lparr>activeSubscription := None\<rparr>
                | None \<Rightarrow> s)"
  have s1: "channels s1 = []" "activeSubscription s1 = None"
    "support_anonymous_id s1 = support_anonymous_id s"
    using assms by (auto simp: s1_def slot_owns_channels_def unsubscribe_def split: option.splits)
  define s2 where "s2 = s1\<lparr>currentConversation := Some conv,
     messages := (case getItem (cache_key (id_conv conv)) (localStorage s1) of
                       Some ms \<Rightarrow> ms | None \<Rightarrow> [])\<rparr>"
  have s2: "channels s2 = []" "activeSubscription s2 = None"
    "support_anonymous_id s2 = support_anonymous_id s"
    using s1 by (simp_all add: s2_def)
  have eq: "setCurrentConversation (Some conv) s =
     (case support_anonymous_id s2 of
        Some anonymousId \<Rightarrow>
          if anonymousId \<noteq> []
          then subscribeToMessages (id_conv conv)
                 (loadConversationMessages_request (id_conv conv) anonymousId s2)
          else s2
      | None \<Rightarrow> s2)"
    by (simp only: setCurrentConversation_def Let_def s1_def s2_def option.case)
  have req: "\<And>a. channels (loadConversationMessages_request (id_conv conv) a s2) = []
     \<and> activeSubscription (loadConversationMessages_request (id_conv conv) a s2) = None
     \<and> support_anonymous_id (loadConversationMessages_request (id_conv conv) a s2)
          = support_anonymous_id s"
    using s2 by (simp add: loadConversationMessages_request_def)
  show ?thesis
  proof (cases "support_anonymous_id s")
    case None
    then show ?thesis using s2 by (simp add: eq active_subscriptions_def)
  next
    case (Some a)
    show ?thesis
    proof (cases "a = []")
      case True
      then show ?thesis using s2 Some by (simp add: eq active_subscriptions_def)
    next
      case False
      have "activeSubscription (loadConversationMessages_request (id_conv conv) a s2) = None"
        using req by simp
      from subscribeToMessages_unsubscribed [OF this, of "id_conv conv"]
      show ?thesis using req [of a] s2 Some False by (simp add: eq active_subscriptions_def)
    qed
  qed
qed

lemma select_twice:
  assumes "slot_owns_channels s"
  shows "active_subscriptions (setCurrentConversation (Some B) (setCurrentConversation (Some A) s))
     = (if truthy (support_anonymous_id s) then [id_conv B] else [])"
proof -
  have "slot_owns_channels (setCurrentConversation (Some A) s)"
    using assms by (rule slot_owns_channels_setCurrentConversation)
  from setCurrentConversation_Some [OF this, of B] setCurrentConversation_Some [OF assms, of A]
  show ?thesis by simp
qed

lemma select_none:
  "slot_owns_channels s \<Longrightarrow>
   active_subscriptions (setCurrentConversation None s) = []
   \<and> activeSubscription (setCurrentConversation None s) = None"
  by (auto simp: slot_owns_channels_def active_subscriptions_def setCurrentConversation_def
        unsubscribe_def split: option.splits)

text \<open>
  Claim C7, as the claim is written: selecting conversation A and then conversation B
  leaves exactly one active subscription, for B. On a client whose \<^verbatim>\<open>localStorage\<close>
  holds no visitor id, \<^verbatim>\<open>setCurrentConversation\<close> takes its \<^verbatim>\<open>else\<close> branch and opens
  no channel: after the two selections no subscription is active.
\<close>

theorem C7_subscription_exclusivity_counterexample:
  "active_subscriptions (run_ops
      [SetCurrentConversation (Some \<lparr>id_conv = ''A'', status = Open\<rparr>),
       SetCurrentConversation (Some \<lparr>id_conv = ''B'', status = Open\<rparr>)] initial_client) = []"
  by (simp add: run_ops_def setCurrentConversation_def initial_client_def
        active_subscriptions_def getItem_def)

text \<open>
  Claim C7, amended (subscription exclusivity). Start from a page with no channel and an
  empty slot, and run any sequence of store operations. Then at most one realtime
  subscription is active. Selecting A and then B at that point leaves exactly one, for
  B, when a visitor id is stored, and none when it is not. Selecting no conversation
  leaves none.
\<close>

theorem C7_subscription_exclusivity:
  assumes "activeSubscription s0 = None" and "channels s0 = []"
  shows "length (active_subscriptions (run_ops ops s0)) \<le> 1
    \<and> active_subscriptions (run_ops (ops @ [SetCurrentConversation (Some A),
                                            SetCurrentConversation (Some B)]) s0)
        = (if truthy (support_anonymous_id (run_ops ops s0)) then [id_conv B] else [])
    \<and> active_subscriptions (run_ops (ops @ [SetCurrentConversation None]) s0) = []"
proof -
  have "slot_owns_channels s0"
    using assms by (simp add: slot_owns_channels_def)
  then have inv: "slot_owns_channels (run_ops ops s0)"
    by (rule slot_owns_channels_run_ops)
  show ?thesis
    using slot_owns_channels_at_most_one [OF inv] select_twice [OF inv] select_none [OF inv]
    by (simp add: run_ops_def)
qed

theorem C7_subscription_exclusivity_witness:
  "active_subscriptions (run_ops
      ([Store_anonymous_id (Some ''visitor''), SubscribeToMessages ''Z'']
       @ [SetCurrentConversation (Some \<lparr>id_conv = ''A'', status = Open\<rparr>),
          SetCurrentConversation (Some \<lparr>id_conv = ''B'', status = Open\<rparr>)]) initial_client)
   = [''B'']"
  using C7_subscription_exclusivity [where ?s0.0 = initial_client
      and ops = "[Store_anonymous_id (Some ''visitor''), SubscribeToMessages ''Z'']"
      and A = "\<lparr>id_conv = ''A'', status = Open\<rparr>"
      and B = "\<lparr>id_conv = ''B'', status = Open\<rparr>"]
  by (simp add: initial_client_def run_ops_def subscribeToMessages_def)

section \<open>Properties of the webhook\<close>

text \<open>
  Claim C3 (secret check). When a secret is configured and the header differs from it, the
  answer is 401 \<^verbatim>\<open>Unauthorized\<close>; when no secret is configured (unset, or empty) the
  answer is 500 \<^verbatim>\<open>Webhook not configured\<close>. In both cases nothing is written, and
  the body of the request is not looked at.
\<close>

theorem C3_secret_mismatch_rejected:
  "(truthy (TELEGRAM_WEBHOOK_SECRET env)
      \<and> secret_header req \<noteq> TELEGRAM_WEBHOOK_SECRET env \<longrightarrow>
      POST env req = (Json_error ''Unauthorized'' 401, no_effects))
   \<and> (\<not> truthy (TELEGRAM_WEBHOOK_SECRET env) \<longrightarrow>
      POST env req = (Json_error ''Webhook not configured'' 500, no_effects))
   \<and> (secret_header req \<noteq> TELEGRAM_WEBHOOK_SECRET env
        \<or> \<not> truthy (TELEGRAM_WEBHOOK_SECRET env) \<longrightarrow>
      fst (POST env req) \<noteq> Json_ok \<and> persisted (snd (POST env req)) = [])"
  by (simp add: POST_def no_effects_def)

theorem C3_secret_mismatch_rejected_witness:
  "POST example_services \<lparr>secret_header = Some ''guess'',
        json_body = Some \<lparr>update_id = 1, message = Some example_message\<rparr>\<rparr>
     = (Json_error ''Unauthorized'' 401, no_effects)
   \<and> POST (example_services\<lparr>TELEGRAM_WEBHOOK_SECRET := None\<rparr>)
        (example_request (Some example_message))
     = (Json_error ''Webhook not configured'' 500, no_effects)"
  using C3_secret_mismatch_rejected [where env = example_services and req = "\<lparr>secret_header = Some ''guess'',
        json_body = Some \<lparr>update_id = 1, message = Some example_message\<rparr>\<rparr>"]
    C3_secret_mismatch_rejected [where env = "example_services\<lparr>TELEGRAM_WEBHOOK_SECRET := None\<rparr>"
      and req = "example_request (Some example_message)"]
  by (simp add: example_services_def)

text \<open>
  Claim C4 (ignored updates). An authenticated, parsed update that has no message, or whose
  message is not from the support group, or has no thread id (none, or the falsy 0), or
  was written by a bot, is acknowledged with success and leaves nothing behind: no row,
  no platform id, no warning, no stored image.
\<close>

theorem C4_ignored_updates:
  assumes "truthy (TELEGRAM_WEBHOOK_SECRET env)"
    and "secret_header req = TELEGRAM_WEBHOOK_SECRET env"
    and "json_body req = Some update"
    and "message update = None
         \<or> (\<exists>msg. message update = Some msg
               \<and> (\<not> isFromSupportGroup env msg
                  \<or> extractThreadId env msg = None
                  \<or> extractThreadId env msg = Some 0
                  \<or> is_bot (from_user msg)))"
  shows "POST env req = (Json_ok, no_effects)"
  using assms by (auto simp: POST_def handle_update_def split: option.splits)

theorem C4_ignored_updates_witness:
  "POST example_services (example_request None) = (Json_ok, no_effects)
   \<and> POST example_services
        (example_request (Some (example_message\<lparr>from_user := example_agent\<lparr>is_bot := True\<rparr>\<rparr>)))
       = (Json_ok, no_effects)
   \<and> POST example_services (example_request (Some (example_message\<lparr>message_thread_id := None\<rparr>)))
       = (Json_ok, no_effects)
   \<and> POST (example_services\<lparr>isFromSupportGroup := (\<lambda>m. False)\<rparr>)
         (example_request (Some example_message))
       = (Json_ok, no_effects)"
  using C4_ignored_updates [where env = example_services and req = "example_request None"
          and update = "\<lparr>update_id = 1, message = None\<rparr>"]
    C4_ignored_updates [where env = example_services
          and req = "example_request (Some (example_message\<lparr>from_user := example_agent\<lparr>is_bot := True\<rparr>\<rparr>))"
          and update = "\<lparr>update_id = 1,
                 message = Some (example_message\<lparr>from_user := example_agent\<lparr>is_bot := True\<rparr>\<rparr>)\<rparr>"]
    C4_ignored_updates [where env = example_services
          and req = "example_request (Some (example_message\<lparr>message_thread_id := None\<rparr>))"
          and update = "\<lparr>update_id = 1,
                 message = Some (example_message\<lparr>message_thread_id := None\<rparr>)\<rparr>"]
    C4_ignored_updates [where env = "example_services\<lparr>isFromSupportGroup := (\<lambda>m. False)\<rparr>"
          and req = "example_request (Some example_message)"
          and update = "\<lparr>update_id = 1, message = Some example_message\<rparr>"]
  by (simp add: example_services_def example_request_def example_message_def example_agent_def)

text \<open>
  Claim C5 (no conversation for the thread). For an authenticated, parsed update whose
  thread id is looked up to no conversation, the answer is the success acknowledgment,
  no row is written, no platform id is attached and no image is stored; at most one
  warning is sent; and the whole result is the same whatever the warning send does
  (\<open>send\<close> is any other behaviour of \<^verbatim>\<open>sendMessageToTopic\<close>). When the lookup is
  reached and the Telegram client is configured, the warning goes to the thread of the
  update.
\<close>

theorem C5_unknown_thread:
  assumes "truthy (TELEGRAM_WEBHOOK_SECRET env)"
    and "secret_header req = TELEGRAM_WEBHOOK_SECRET env"
    and "json_body req = Some update"
    and "message update = Some msg"
    and "extractThreadId env msg = Some threadId"
    and "getConversationByThreadId env threadId = Returns None"
  shows "fst (POST env req) = Json_ok
    \<and> persisted (snd (POST env req)) = []
    \<and> telegram_ids (snd (POST env req)) = []
    \<and> stored_images (snd (POST env req)) = []
    \<and> length (warnings (snd (POST env req))) \<le> 1
    \<and> POST (env\<lparr>sendMessageToTopic := send\<rparr>) req = POST env req
    \<and> (isFromSupportGroup env msg \<and> threadId \<noteq> 0 \<and> \<not> is_bot (from_user msg)
         \<and> isConfigured env \<longrightarrow>
       warnings (snd (POST env req)) = [(threadId, warning_text, ''System'')])"
  using assms
  by (auto simp: POST_def handle_update_def no_effects_def split: outcome.splits)

theorem C5_unknown_thread_witness:
  "POST example_services (example_request (Some (example_message\<lparr>message_thread_id := Some 8\<rparr>)))
     = (Json_ok, no_effects\<lparr>warnings := [(8, warning_text, ''System'')]\<rparr>)
   \<and> POST (example_services\<lparr>sendMessageToTopic := (\<lambda>t h l. Returns ())\<rparr>)
        (example_request (Some (example_message\<lparr>message_thread_id := Some 8\<rparr>)))
     = POST example_services
        (example_request (Some (example_message\<lparr>message_thread_id := Some 8\<rparr>)))"
  using C5_unknown_thread [where env = example_services
      and req = "example_request (Some (example_message\<lparr>message_thread_id := Some 8\<rparr>))"
      and update = "\<lparr>update_id = 1, message = Some (example_message\<lparr>message_thread_id := Some 8\<rparr>)\<rparr>"
      and msg = "example_message\<lparr>message_thread_id := Some 8\<rparr>"
      and threadId = 8 and send = "\<lambda>t h l. Returns ()"]
  by (simp add: example_services_def example_request_def example_message_def example_agent_def
        no_effects_def prod_eq_iff)

lemma helper_metadata_fails:
  "getFile env tok fid = Throws
   \<or> (\<exists>fd. getFile env tok fid = Returns fd
         \<and> (\<not> ok_file fd \<or> result_file_path fd = None \<or> result_file_path fd = Some None
            \<or> result_file_path fd = Some (Some []))) \<Longrightarrow>
   downloadAndUploadTelegramPhoto env fid tok = (None, [])"
  by (auto simp: downloadAndUploadTelegramPhoto_def)

lemma helper_download_fails:
  assumes "getFile env tok fid = Returns fd"
    and "result_file_path fd = Some (Some p)"
    and "download env tok p = Throws
         \<or> (\<exists>d. download env tok p = Returns d \<and> (\<not> ok_download d \<or> arrayBuffer d = Throws))"
  shows "downloadAndUploadTelegramPhoto env fid tok = (None, [])"
  using assms by (auto simp: downloadAndUploadTelegramPhoto_def)

lemma helper_upload_fails:
  assumes "getFile env tok fid = Returns fd"
    and "result_file_path fd = Some (Some p)"
    and "download env tok p = Returns d"
    and "arrayBuffer d = Returns b"
    and "upload env (''telegram_'' @ clock env @ ''_'' @ random36 env @ ''.'' @ extension p) b
           (case or_null (content_type d) of Some t \<Rightarrow> t | None \<Rightarrow> ''image/jpeg'') = Throws
         \<or> (\<exists>e. upload env (''telegram_'' @ clock env @ ''_'' @ random36 env @ ''.'' @ extension p) b
                  (case or_null (content_type d) of Some t \<Rightarrow> t | None \<Rightarrow> ''image/jpeg'')
                = Returns (Upload_error e))"
  shows "downloadAndUploadTelegramPhoto env fid tok = (None, [])"
  unfolding downloadAndUploadTelegramPhoto_def Let_def
  using assms by auto

lemma save_message_returns:
  "fst (save_message env msg conversation) = Throws
   \<or> fst (save_message env msg conversation) = Returns Json_ok"
  unfolding save_message_def Let_def
  by (simp split: outcome.splits option.splits prod.splits)

lemma save_message_without_image:
  assumes content_is: "(if truthy (text_msg msg) then text_msg msg else or_null (caption msg)) = c"
    and has_content: "truthy c"
    and has_photo: "photo msg = Some ps" "ps \<noteq> []"
    and helper: "\<forall>tok. TELEGRAM_BOT_TOKEN env = Some tok \<longrightarrow>
           downloadAndUploadTelegramPhoto env (file_id (last ps)) tok = (None, [])"
    and created: "createMessage env
          \<lparr>new_conversation_id = id_conv conversation, new_sender_type = Support,
           new_sender_name = first_name (from_user msg),
           new_sender_telegram_id = id_user (from_user msg),
           new_content = c, new_image_url = None\<rparr> = Returns supportMessage"
  shows "persisted (snd (save_message env msg conversation))
           = [\<lparr>new_conversation_id = id_conv conversation, new_sender_type = Support,
               new_sender_name = first_name (from_user msg),
               new_sender_telegram_id = id_user (from_user msg),
               new_content = c, new_image_url = None\<rparr>]
    \<and> stored_images (snd (save_message env msg conversation)) = []"
proof -
  have sel: "ps ! (length ps - 1) = last ps" "ps ! (length ps - Suc 0) = last ps"
    using has_photo(2) by (simp_all add: last_conv_nth)
  show ?thesis
  proof (cases "TELEGRAM_BOT_TOKEN env")
    case None
    show ?thesis
      unfolding save_message_def Let_def content_is
      using None has_content has_photo created
      by (simp add: no_effects_def split: outcome.splits)
  next
    case (Some tok)
    show ?thesis
    proof (cases "tok = []")
      case True
      show ?thesis
        unfolding save_message_def Let_def content_is
        using True Some has_content has_photo created
        by (simp add: no_effects_def split: outcome.splits)
    next
      case False
      have "downloadAndUploadTelegramPhoto env (file_id (last ps)) tok = (None, [])"
        using helper Some by blast
      then show ?thesis
        unfolding save_message_def Let_def content_is
        using Some False has_content has_photo created
        by (simp add: sel or_null_def no_effects_def split: outcome.splits)
    qed
  qed
qed

lemma POST_reaches_save_message:
  assumes "truthy (TELEGRAM_WEBHOOK_SECRET env)"
    and "secret_header req = TELEGRAM_WEBHOOK_SECRET env"
    and "json_body req = Some update"
    and "message update = Some msg"
    and "isFromSupportGroup env msg"
    and "extractThreadId env msg = Some threadId" and "threadId \<noteq> 0"
    and "\<not> is_bot (from_user msg)"
    and "getConversationByThreadId env threadId = Returns (Some conversation)"
  shows "POST env req = (case save_message env msg conversation of
                (Throws, fx) \<Rightarrow> (Json_ok, fx) | (Returns r, fx) \<Rightarrow> (r, fx))"
  using assms by (simp add: POST_def handle_update_def)

text \<open>
  Claim C8 (graceful image degradation). An update that reaches the content step with a
  text or caption and a non-empty photo array; some step of the image pipeline fails for
  the last element of the array: the file metadata call throws, or is not ok, or gives no
  path; or the download of the path it gave throws, is not ok, or its body cannot be
  read; or the upload of that body, under the name and content type the helper computes,
  throws or reports an error. Then the helper returns \<^verbatim>\<open>null\<close> (it is a value: nothing
  is thrown) and stores nothing, the answer is the success acknowledgment, and, the insert
  itself going through, exactly one row is written, with the text and without an image
  URL. The hypothesis speaks of \<open>last ps\<close> only: that is the element the handler hands
  to the helper.
\<close>

theorem C8_image_degrades_gracefully:
  assumes "truthy (TELEGRAM_WEBHOOK_SECRET env)"
    and "secret_header req = TELEGRAM_WEBHOOK_SECRET env"
    and "json_body req = Some update"
    and "message update = Some msg"
    and "isFromSupportGroup env msg"
    and "extractThreadId env msg = Some threadId" and "threadId \<noteq> 0"
    and "\<not> is_bot (from_user msg)"
    and "getConversationByThreadId env threadId = Returns (Some conversation)"
    and "truthy (text_msg msg) \<or> truthy (caption msg)"
    and "photo msg = Some ps" and "ps \<noteq> []"
    and failure:
      "\<forall>tok. TELEGRAM_BOT_TOKEN env = Some tok \<longrightarrow>
         getFile env tok (file_id (last ps)) = Throws
         \<or> (\<exists>fd. getFile env tok (file_id (last ps)) = Returns fd
               \<and> (\<not> ok_file fd \<or> result_file_path fd = None
                  \<or> result_file_path fd = Some None \<or> result_file_path fd = Some (Some [])))
         \<or> (\<exists>fd p. getFile env tok (file_id (last ps)) = Returns fd
               \<and> result_file_path fd = Some (Some p)
               \<and> (download env tok p = Throws
                  \<or> (\<exists>d. download env tok p = Returns d
                        \<and> (\<not> ok_download d \<or> arrayBuffer d = Throws))))
         \<or> (\<exists>fd p d b. getFile env tok (file_id (last ps)) = Returns fd
               \<and> result_file_path fd = Some (Some p)
               \<and> download env tok p = Returns d
               \<and> arrayBuffer d = Returns b
               \<and> (upload env
                      (''telegram_'' @ clock env @ ''_'' @ random36 env @ ''.'' @ extension p) b
                      (case or_null (content_type d) of Some t \<Rightarrow> t | None \<Rightarrow> ''image/jpeg'')
                    = Throws
                  \<or> (\<exists>e. upload env
                      (''telegram_'' @ clock env @ ''_'' @ random36 env @ ''.'' @ extension p) b
                      (case or_null (content_type d) of Some t \<Rightarrow> t | None \<Rightarrow> ''image/jpeg'')
                    = Returns (Upload_error e))))"
    and "createMessage env
          \<lparr>new_conversation_id = id_conv conversation, new_sender_type = Support,
           new_sender_name = first_name (from_user msg),
           new_sender_telegram_id = id_user (from_user msg),
           new_content = (if truthy (text_msg msg) then text_msg msg else caption msg),
           new_image_url = None\<rparr> = Returns supportMessage"
  shows "(\<forall>tok. TELEGRAM_BOT_TOKEN env = Some tok \<longrightarrow>
            downloadAndUploadTelegramPhoto env (file_id (last ps)) tok = (None, []))
    \<and> fst (POST env req) = Json_ok
    \<and> persisted (snd (POST env req))
         = [\<lparr>new_conversation_id = id_conv conversation, new_sender_type = Support,
             new_sender_name = first_name (from_user msg),
             new_sender_telegram_id = id_user (from_user msg),
             new_content = (if truthy (text_msg msg) then text_msg msg else caption msg),
             new_image_url = None\<rparr>]
    \<and> stored_images (snd (POST env req)) = []"
proof -
  have helper: "\<forall>tok. TELEGRAM_BOT_TOKEN env = Some tok \<longrightarrow>
            downloadAndUploadTelegramPhoto env (file_id (last ps)) tok = (None, [])"
  proof (intro allI impI)
    fix tok assume "TELEGRAM_BOT_TOKEN env = Some tok"
    with failure consider
        (metadata) "getFile env tok (file_id (last ps)) = Throws
         \<or> (\<exists>fd. getFile env tok (file_id (last ps)) = Returns fd
               \<and> (\<not> ok_file fd \<or> result_file_path fd = None
                  \<or> result_file_path fd = Some None \<or> result_file_path fd = Some (Some [])))"
      | (download) fd p where "getFile env tok (file_id (last ps)) = Returns fd"
          "result_file_path fd = Some (Some p)"
          "download env tok p = Throws
             \<or> (\<exists>d. download env tok p = Returns d
                   \<and> (\<not> ok_download d \<or> arrayBuffer d = Throws))"
      | (upload) fd p d b where "getFile env tok (file_id (last ps)) = Returns fd"
          "result_file_path fd = Some (Some p)"
          "download env tok p = Returns d" "arrayBuffer d = Returns b"
          "upload env (''telegram_'' @ clock env @ ''_'' @ random36 env @ ''.'' @ extension p) b
             (case or_null (content_type d) of Some t \<Rightarrow> t | None \<Rightarrow> ''image/jpeg'') = Throws
           \<or> (\<exists>e. upload env
                  (''telegram_'' @ clock env @ ''_'' @ random36 env @ ''.'' @ extension p) b
                  (case or_null (content_type d) of Some t \<Rightarrow> t | None \<Rightarrow> ''image/jpeg'')
                = Returns (Upload_error e))"
      by blast
    then show "downloadAndUploadTelegramPhoto env (file_id (last ps)) tok = (None, [])"
    proof cases
      case metadata then show ?thesis by (rule helper_metadata_fails)
    next
      case download then show ?thesis by (rule helper_download_fails)
    next
      case upload then show ?thesis by (rule helper_upload_fails)
    qed
  qed
  note post = POST_reaches_save_message [OF assms(1-9)]
  have content_is: "(if truthy (text_msg msg) then text_msg msg else or_null (caption msg))
      = (if truthy (text_msg msg) then text_msg msg else caption msg)"
    and has_content: "truthy (if truthy (text_msg msg) then text_msg msg else caption msg)"
    using assms(10) by (auto simp: or_null_def)
  from save_message_without_image [OF content_is has_content assms(11,12) helper assms(14)]
    save_message_returns [of env msg conversation]
  show ?thesis
    using helper by (auto simp: post split: prod.splits outcome.splits)
qed


theorem C8_image_degrades_gracefully_witness:
  "(fst (POST example_services (example_request (Some example_message))) = Json_ok
    \<and> persisted (snd (POST example_services (example_request (Some example_message))))
        = [\<lparr>new_conversation_id = ''c1'', new_sender_type = Support, new_sender_name = ''Agent'',
            new_sender_telegram_id = 1001, new_content = Some ''See photo'',
            new_image_url = None\<rparr>]
    \<and> stored_images (snd (POST example_services (example_request (Some example_message)))) = [])
   \<and> (fst (POST example_download_fails (example_request (Some example_message))) = Json_ok
    \<and> persisted (snd (POST example_download_fails (example_request (Some example_message))))
        = [\<lparr>new_conversation_id = ''c1'', new_sender_type = Support, new_sender_name = ''Agent'',
            new_sender_telegram_id = 1001, new_content = Some ''See photo'',
            new_image_url = None\<rparr>]
    \<and> stored_images (snd (POST example_download_fails (example_request (Some example_message)))) = [])
   \<and> (fst (POST example_upload_fails (example_request (Some example_message))) = Json_ok
    \<and> persisted (snd (POST example_upload_fails (example_request (Some example_message))))
        = [\<lparr>new_conversation_id = ''c1'', new_sender_type = Support, new_sender_name = ''Agent'',
            new_sender_telegram_id = 1001, new_content = Some ''See photo'',
            new_image_url = None\<rparr>]
    \<and> stored_images (snd (POST example_upload_fails (example_request (Some example_message)))) = [])"
proof -
  note example_defs = example_services_def example_download_fails_def example_upload_fails_def
    example_paths_def example_request_def example_message_def example_agent_def
    example_conversation_def example_row_def extension_def or_null_def
  have metadata: "fst (POST example_services (example_request (Some example_message))) = Json_ok
    \<and> persisted (snd (POST example_services (example_request (Some example_message))))
        = [\<lparr>new_conversation_id = ''c1'', new_sender_type = Support, new_sender_name = ''Agent'',
            new_sender_telegram_id = 1001, new_content = Some ''See photo'',
            new_image_url = None\<rparr>]
    \<and> stored_images (snd (POST example_services (example_request (Some example_message)))) = []"
    using C8_image_degrades_gracefully [where env = example_services
      and req = "example_request (Some example_message)"
      and update = "\<lparr>update_id = 1, message = Some example_message\<rparr>"
      and msg = example_message and threadId = 7 and conversation = example_conversation
      and ps = "[\<lparr>file_id = ''small''\<rparr>, \<lparr>file_id = ''large''\<rparr>]"
      and supportMessage = "example_row \<lparr>new_conversation_id = ''c1'', new_sender_type = Support,
          new_sender_name = ''Agent'', new_sender_telegram_id = 1001,
          new_content = Some ''See photo'', new_image_url = None\<rparr>"]
    by (simp add: example_defs)
  have download: "fst (POST example_download_fails (example_request (Some example_message))) = Json_ok
    \<and> persisted (snd (POST example_download_fails (example_request (Some example_message))))
        = [\<lparr>new_conversation_id = ''c1'', new_sender_type = Support, new_sender_name = ''Agent'',
            new_sender_telegram_id = 1001, new_content = Some ''See photo'',
            new_image_url = None\<rparr>]
    \<and> stored_images (snd (POST example_download_fails (example_request (Some example_message)))) = []"
    using C8_image_degrades_gracefully [where env = example_download_fails
      and req = "example_request (Some example_message)"
      and update = "\<lparr>update_id = 1, message = Some example_message\<rparr>"
      and msg = example_message and threadId = 7 and conversation = example_conversation
      and ps = "[\<lparr>file_id = ''small''\<rparr>, \<lparr>file_id = ''large''\<rparr>]"
      and supportMessage = "example_row \<lparr>new_conversation_id = ''c1'', new_sender_type = Support,
          new_sender_name = ''Agent'', new_sender_telegram_id = 1001,
          new_content = Some ''See photo'', new_image_url = None\<rparr>"]
    by (simp add: example_defs)
  have upload: "fst (POST example_upload_fails (example_request (Some example_message))) = Json_ok
    \<and> persisted (snd (POST example_upload_fails (example_request (Some example_message))))
        = [\<lparr>new_conversation_id = ''c1'', new_sender_type = Support, new_sender_name = ''Agent'',
            new_sender_telegram_id = 1001, new_content = Some ''See photo'',
            new_image_url = None\<rparr>]
    \<and> stored_images (snd (POST example_upload_fails (example_request (Some example_message)))) = []"
    using C8_image_degrades_gracefully [where env = example_upload_fails
      and req = "example_request (Some example_message)"
      and update = "\<lparr>update_id = 1, message = Some example_message\<rparr>"
      and msg = example_message and threadId = 7 and conversation = example_conversation
      and ps = "[\<lparr>file_id = ''small''\<rparr>, \<lparr>file_id = ''large''\<rparr>]"
      and supportMessage = "example_row \<lparr>new_conversation_id = ''c1'', new_sender_type = Support,
          new_sender_name = ''Agent'', new_sender_telegram_id = 1001,
          new_content = Some ''See photo'', new_image_url = None\<rparr>"]
    by (simp add: example_defs)
  from metadata download upload show ?thesis by blast
qed

text \<open>
  For contrast: in the second environment the file \<^verbatim>\<open>small\<close> goes through the three
  steps, and a message that carries only that photo is written with its public URL.
\<close>

lemma small_photo_is_stored:
  "POST example_download_fails
     (example_request (Some (example_message\<lparr>photo := Some [\<lparr>file_id = ''small''\<rparr>]\<rparr>)))
   = (Json_ok, \<lparr>persisted =
        [\<lparr>new_conversation_id = ''c1'', new_sender_type = Support, new_sender_name = ''Agent'',
          new_sender_telegram_id = 1001, new_content = Some ''See photo'',
          new_image_url = Some ''https://storage.example/telegram_1700000000000_abc123.jpg''\<rparr>],
        telegram_ids = [(''m1'', 55)], warnings = [],
        stored_images = [''telegram_1700000000000_abc123.jpg'']\<rparr>)"
  by (simp add: POST_def handle_update_def save_message_def downloadAndUploadTelegramPhoto_def
        example_services_def example_download_fails_def example_paths_def example_request_def
        example_message_def example_agent_def example_conversation_def example_row_def
        extension_def or_null_def no_effects_def Let_def)

text \<open>
  Claim C10 (photo without text, no bot token). An update that reaches the content step
  with a photo, no text and no caption, while \<^verbatim>\<open>TELEGRAM_BOT_TOKEN\<close> is unset or empty:
  the helper is not called, the empty-content check returns, nothing is written or stored,
  and the answer is the success acknowledgment.
\<close>

theorem C10_photo_only_without_token:
  assumes "truthy (TELEGRAM_WEBHOOK_SECRET env)"
    and "secret_header req = TELEGRAM_WEBHOOK_SECRET env"
    and "json_body req = Some update"
    and "message update = Some msg"
    and "isFromSupportGroup env msg"
    and "extractThreadId env msg = Some threadId" and "threadId \<noteq> 0"
    and "\<not> is_bot (from_user msg)"
    and "getConversationByThreadId env threadId = Returns (Some conversation)"
    and "\<not> truthy (text_msg msg)" and "\<not> truthy (caption msg)"
    and "photo msg = Some ps" and "ps \<noteq> []"
    and "\<not> truthy (TELEGRAM_BOT_TOKEN env)"
  shows "POST env req = (Json_ok, no_effects)"
proof -
  have "save_message env msg conversation = (Returns Json_ok, no_effects)"
    using assms(10-14)
    by (cases "TELEGRAM_BOT_TOKEN env")
       (simp_all add: save_message_def Let_def or_null_def no_effects_def)
  then show ?thesis
    by (simp add: POST_reaches_save_message [OF assms(1-9)])
qed

theorem C10_photo_only_without_token_witness:
  "POST (example_services\<lparr>TELEGRAM_BOT_TOKEN := None\<rparr>)
     (example_request (Some (example_message\<lparr>text_msg := None\<rparr>))) = (Json_ok, no_effects)"
  using C10_photo_only_without_token [where env = "example_services\<lparr>TELEGRAM_BOT_TOKEN := None\<rparr>"
      and req = "example_request (Some (example_message\<lparr>text_msg := None\<rparr>))"
      and update = "\<lparr>update_id = 1, message = Some (example_message\<lparr>text_msg := None\<rparr>)\<rparr>"
      and msg = "example_message\<lparr>text_msg := None\<rparr>"
      and threadId = 7 and conversation = example_conversation
      and ps = "[\<lparr>file_id = ''small''\<rparr>, \<lparr>file_id = ''large''\<rparr>]"]
  by (simp add: example_services_def example_request_def example_message_def example_agent_def)

section \<open>Properties of the chat input\<close>

text \<open>
  Claim C9 (status-gated input). When the current conversation is resolved or closed, the
  component renders one control only, the button \<^verbatim>\<open>Start New Ticket\<close>: no form, no
  text field, no send button, hence nothing that calls \<^verbatim>\<open>handleSubmit\<close>. The handler
  of every rendered control issues no HTTP request and clears the current conversation
  and the message list.
\<close>

theorem C9_status_gated_input:
  assumes "currentConversation s = Some conv"
    and "status conv = Resolved \<or> status conv = Closed"
  shows "SupportChatInput ui s = [Start_new_ticket]
    \<and> (\<forall>c \<in> set (SupportChatInput ui s).
          network (snd (on_control anonymousId i c (ui, s))) = network s
          \<and> currentConversation (snd (on_control anonymousId i c (ui, s))) = None
          \<and> messages (snd (on_control anonymousId i c (ui, s))) = [])"
  using assms
  by (auto simp: SupportChatInput_def is_closed_or_resolved_def on_control_def
        start_new_ticket_def setError_def)

theorem C9_status_gated_input_witness:
  "SupportChatInput
     \<lparr>message_input = ''hello'', selectedImage = None, imagePreview = None, isUploading = False,
      isSubmitting = False\<rparr>
     (example_client\<lparr>currentConversation := Some \<lparr>id_conv = ''c1'', status = Closed\<rparr>\<rparr>)
   = [Start_new_ticket]"
  using C9_status_gated_input [where s = "example_client\<lparr>currentConversation := Some \<lparr>id_conv = ''c1'', status = Closed\<rparr>\<rparr>"
      and conv = "\<lparr>id_conv = ''c1'', status = Closed\<rparr>"
      and ui = "\<lparr>message_input = ''hello'', selectedImage = None, imagePreview = None,
                 isUploading = False, isSubmitting = False\<rparr>"]
  by simp

lemma trim_hello: "trim ''hello'' = ''hello''"
  by (simp add: trim_def trimEnd_def white_space_def trimStart.simps)

lemma trim_no_break_space: "trim ([CHR 0xC2, CHR 0xA0] @ ''hi '' @ [CHR 0xE2, CHR 0x80, CHR 0xA8]) = ''hi''"
  by (simp add: trim_def trimEnd_def white_space_def trimStart.simps)

text \<open>
  For contrast: with an open conversation the send button is rendered, and pressing it
  posts the message.
\<close>

lemma open_conversation_sends:
  "Send_button \<in> set (SupportChatInput
       \<lparr>message_input = ''hello'', selectedImage = None, imagePreview = None,
        isUploading = False, isSubmitting = False\<rparr> example_client)
   \<and> network (snd (on_control ''visitor''
         \<lparr>typed = ''hello'', picked = None, preview = [], uploaded_answer = Ok None,
          now_text = ''17'', random_text = ''0.5'', iso_text = ''now''\<rparr> Send_button
         (\<lparr>message_input = ''hello'', selectedImage = None, imagePreview = None,
           isUploading = False, isSubmitting = False\<rparr>, example_client)))
     = [POST_messages ''c1'' ''hello'' None ''visitor'']"
  by (simp add: SupportChatInput_def is_closed_or_resolved_def on_control_def handleSubmit_def
        example_client_def example_conversation_def initial_client_def sendMessage_def
        trim_hello Let_def)

end
